theory Spec2Isabelle
  imports Complex_Main "HOL-Library.Sublist"
begin

section \<open>The gRPC channel factory of \<open>layer/utils/grpc/channel.py\<close>\<close>

text \<open>
  The module has two entry points, \<open>create_grpc_ssl_config\<close> (what to trust) and
  \<open>create_grpc_channel\<close> (the options, credentials and interceptors handed to gRPC).
  Both are embedded below statement by statement. What they call outside the module (the
  socket, the X.509 parser, the platform's trust store) is a parameter of the model, the
  record \<open>env\<close>; what the standard library computes deterministically (\<open>str.split\<close>,
  \<open>int\<close>, \<open>str.join\<close>, \<open>ssl.DER_cert_to_PEM_cert\<close>, \<open>json.dumps\<close>) is a function of the
  model. A \<open>string\<close> is a list of 8-bit characters. It stands for a \<open>bytes\<close> object, and
  for a Python \<open>str\<close> whose code points are all below 256, each character being one code
  point; \<open>str.encode()\<close> (UTF-8) takes the second reading to the first.
\<close>

subsection \<open>Exceptions\<close>

text \<open>
  An exception is the \<open>Inl\<close> of a sum. The module has no \<open>raise\<close> and no \<open>except\<close>: every
  exception comes out of a built-in or a library call and propagates unchanged.
  \<open>ValueError\<close> and \<open>IndexError\<close> are the built-ins' (tuple unpacking, \<open>int\<close>, list indexing),
  \<open>ExtensionNotFound\<close> and \<open>DuplicateExtension\<close> are \<open>cryptography.x509\<close>'s.
  \<open>ConnectionError\<close> is Python's built-in class and \<open>CertificateParseError\<close> the error kind
  the specification names; no statement of the module raises either, they can only be
  what the environment raised. \<open>OtherError\<close> carries the class name of any other exception
  of the environment (\<open>gaierror\<close>, \<open>SSLError\<close>, \<open>UnsupportedGeneralNameType\<close>, ...).
\<close>

datatype py_error =
    ValueError
  | IndexError
  | ExtensionNotFound
  | DuplicateExtension
  | ConnectionError
  | CertificateParseError
  | OtherError string

subsection \<open>Built-ins on strings\<close>

text \<open>\<open>s.split(sep, 1)\<close> for a one-character separator: at most one split, at the first
  occurrence.\<close>

definition str_split_1 :: "char \<Rightarrow> string \<Rightarrow> string list" where
  "str_split_1 sep s =
     (if sep \<in> set s
      then [takeWhile (\<lambda>c. c \<noteq> sep) s, tl (dropWhile (\<lambda>c. c \<noteq> sep) s)]
      else [s])"

text \<open>\<open>a, b = xs\<close>: unpacking into two names raises \<open>ValueError\<close> unless \<open>xs\<close> has exactly two
  elements.\<close>

fun unpack_2 :: "'a list \<Rightarrow> py_error + ('a \<times> 'a)" where
  "unpack_2 [a, b] = Inr (a, b)"
| "unpack_2 _ = Inl ValueError"

text \<open>\<open>xs[0]\<close> raises \<open>IndexError\<close> on the empty list.\<close>

fun index_0 :: "'a list \<Rightarrow> py_error + 'a" where
  "index_0 [] = Inl IndexError"
| "index_0 (x # _) = Inr x"

text \<open>
  \<open>int(s)\<close> on a \<open>str\<close>, as CPython 3.11 computes it on code points below 256. The
  whitespace around the number is skipped: the characters 9 to 13 and 32, and the two
  whitespace characters above 127, 0x85 and 0xA0 (the separators 0x1C to 0x1F are not
  skipped). One sign is allowed, then decimal digits \<open>0\<close> to \<open>9\<close> with single underscores
  between digits. More than 4300 digits (the default of \<open>sys.int_max_str_digits\<close>; the
  underscores do not count, leading zeros do) raise \<open>ValueError\<close>, as does every other
  text.
\<close>

definition py_isspace :: "char \<Rightarrow> bool" where
  "py_isspace c = ((of_char c :: nat) \<in> {9, 10, 11, 12, 13, 32, 133, 160})"

definition py_strip :: "string \<Rightarrow> string" where
  "py_strip s = rev (dropWhile py_isspace (rev (dropWhile py_isspace s)))"

definition is_digit :: "char \<Rightarrow> bool" where
  "is_digit c = (48 \<le> (of_char c :: nat) \<and> (of_char c :: nat) \<le> 57)"

fun digits_ok :: "string \<Rightarrow> bool" where
  "digits_ok [] = False"
| "digits_ok [c] = is_digit c"
| "digits_ok (c # d # r) =
     (is_digit c \<and> (if d = CHR ''_'' then digits_ok r else digits_ok (d # r)))"

definition digits_count :: "string \<Rightarrow> nat" where
  "digits_count s = length (filter (\<lambda>c. c \<noteq> CHR ''_'') s)"

definition int_max_str_digits :: nat where
  "int_max_str_digits = 4300"

definition digits_value :: "string \<Rightarrow> int" where
  "digits_value s =
     foldl (\<lambda>acc c. if c = CHR ''_'' then acc else 10 * acc + (int (of_char c) - 48)) 0 s"

definition py_int :: "string \<Rightarrow> py_error + int" where
  "py_int s =
     (let t = py_strip s;
          neg = (t \<noteq> [] \<and> hd t = CHR ''-'');
          body = (if t \<noteq> [] \<and> (hd t = CHR ''-'' \<or> hd t = CHR ''+'') then tl t else t)
      in if digits_ok body \<and> digits_count body \<le> int_max_str_digits
         then Inr (if neg then - digits_value body else digits_value body)
         else Inl ValueError)"

text \<open>
  \<open>s.encode()\<close>, UTF-8, on a \<open>str\<close> of code points below 256: a code point below 128 is one
  byte, the others are two.
\<close>

definition encode_char :: "char \<Rightarrow> string" where
  "encode_char c =
     (if (of_char c :: nat) < 128 then [c]
      else [char_of (192 + (of_char c :: nat) div 64), char_of (128 + (of_char c :: nat) mod 64)])"

definition str_encode :: "string \<Rightarrow> string" where
  "str_encode s = concat (map encode_char s)"

text \<open>\<open>sep.join(xs)\<close>.\<close>

fun str_join :: "string \<Rightarrow> string list \<Rightarrow> string" where
  "str_join sep [] = []"
| "str_join sep [x] = x"
| "str_join sep (x # y # ys) = x @ sep @ str_join sep (y # ys)"

text \<open>A Python condition on an \<open>Optional[str]\<close>: \<open>None\<close> and the empty string are false.\<close>

fun truthy :: "string option \<Rightarrow> bool" where
  "truthy None = False"
| "truthy (Some s) = (s \<noteq> [])"

subsection \<open>\<open>ssl.DER_cert_to_PEM_cert\<close>\<close>

text \<open>
  The standard library's function: the Base64 of the DER bytes in lines of 64 characters,
  between the header and the footer, every line ended by a newline.
  \<^verbatim>\<open>
  f = str(base64.standard_b64encode(der_cert_bytes), 'ASCII', 'strict')
  ss = [PEM_HEADER]
  ss += [f[i:i+64] for i in range(0, len(f), 64)]
  ss.append(PEM_FOOTER + '\n')
  return '\n'.join(ss)
  \<close>
\<close>

definition b64_char :: "nat \<Rightarrow> char" where
  "b64_char n =
     ''ABCDEFGHIJKLMNOPQRSTUVWXYZabcdefghijklmnopqrstuvwxyz0123456789+/'' ! (n mod 64)"

fun standard_b64encode :: "string \<Rightarrow> string" where
  "standard_b64encode [] = []"
| "standard_b64encode [a] =
     (let n = of_char a * 65536
      in [b64_char (n div 262144), b64_char (n div 4096), CHR ''='', CHR ''=''])"
| "standard_b64encode [a, b] =
     (let n = of_char a * 65536 + of_char b * 256
      in [b64_char (n div 262144), b64_char (n div 4096), b64_char (n div 64), CHR ''=''])"
| "standard_b64encode (a # b # c # r) =
     (let n = of_char a * 65536 + of_char b * 256 + of_char c
      in [b64_char (n div 262144), b64_char (n div 4096), b64_char (n div 64), b64_char n])
     @ standard_b64encode r"

text \<open>\<open>[f[i:i+n] for i in range(0, len(f), n)]\<close>, called with \<open>n = 64\<close> only.\<close>

function slices :: "nat \<Rightarrow> 'a list \<Rightarrow> 'a list list" where
  "slices n xs = (if n = 0 \<or> xs = [] then [] else take n xs # slices n (drop n xs))"
  by pat_completeness auto
termination
  by (relation "measure (\<lambda>(n, xs). length xs)") auto

declare slices.simps [simp del]

definition PEM_HEADER :: string where
  "PEM_HEADER = ''-----BEGIN CERTIFICATE-----''"

definition PEM_FOOTER :: string where
  "PEM_FOOTER = ''-----END CERTIFICATE-----''"

definition DER_cert_to_PEM_cert :: "string \<Rightarrow> string" where
  "DER_cert_to_PEM_cert der_cert_bytes =
     (let f = standard_b64encode der_cert_bytes;
          ss = [PEM_HEADER] @ slices 64 f @ [PEM_FOOTER @ ''\<newline>'']
      in str_join ''\<newline>'' ss)"

subsection \<open>Certificates, as \<open>cryptography.x509\<close> presents them\<close>

text \<open>
  The module asks a parsed certificate for one thing: the extension with the OID
  \<open>SUBJECT_ALTERNATIVE_NAME\<close>, and of its value the names of type \<open>DNSName\<close>.

  The property \<open>cert.extensions\<close> parses the extensions when it is read, after
  \<open>load_pem_x509_certificate\<close> has returned, and raises when they do not parse: \<open>DuplicateExtension\<close>
  when an OID occurs twice (two Subject Alternative Name extensions, for one),
  \<open>UnsupportedGeneralNameType\<close> or \<open>ValueError\<close> on contents it cannot read. A certificate of
  the model says what the property does: the error it raises, or the extensions it returns.
  Returned extensions hold every OID at most once, hence at most one Subject Alternative
  Name; the OIDs of the other extensions are kept as dotted strings.
  \<open>get_extension_for_oid\<close> raises \<open>ExtensionNotFound\<close> when there is no extension with the OID asked
  for; \<open>get_values_for_type\<close> keeps the values of the names of the type asked for, in the
  certificate's order.
\<close>

datatype general_name =
    DNSName string
  | RFC822Name string
  | UniformResourceIdentifier string
  | IPAddress string
  | DirectoryName string
  | RegisteredID string
  | OtherName string

record x509_extensions =
  subject_alternative_name :: "general_name list option"
  other_extensions :: "string list"

record certificate =
  extensions :: "py_error + x509_extensions"

definition get_extension_for_oid_SAN :: "x509_extensions \<Rightarrow> py_error + general_name list" where
  "get_extension_for_oid_SAN exts =
     (case subject_alternative_name exts of
        None \<Rightarrow> Inl ExtensionNotFound
      | Some names \<Rightarrow> Inr names)"

fun get_values_for_type_DNSName :: "general_name list \<Rightarrow> string list" where
  "get_values_for_type_DNSName [] = []"
| "get_values_for_type_DNSName (DNSName d # ns) = d # get_values_for_type_DNSName ns"
| "get_values_for_type_DNSName (_ # ns) = get_values_for_type_DNSName ns"

subsection \<open>The environment\<close>

text \<open>
  \<^item> \<open>get_server_certificate host port\<close>: \<open>ssl.get_server_certificate((host, port))\<close>, the TLS
    handshake that returns the peer's leaf certificate in PEM, or raises;
  \<^item> \<open>load_pem_x509_certificate data\<close>: the parser of \<open>cryptography.x509\<close> on the bytes
    \<open>data\<close>, or raises;
  \<^item> \<open>get_ca_certs\<close>: \<open>ssl.create_default_context().get_ca_certs(binary_form=True)\<close>, the
    certificates of the platform's default trust store that are loaded, in DER.
\<close>

record env =
  get_server_certificate :: "string \<Rightarrow> int \<Rightarrow> py_error + string"
  load_pem_x509_certificate :: "string \<Rightarrow> py_error + certificate"
  get_ca_certs :: "string list"

subsection \<open>\<open>GRPCSSLConfig\<close> and \<open>create_grpc_ssl_config\<close>\<close>

record GRPCSSLConfig =
  cadata :: "string option"
  hostname_override :: "string option"

definition load_default_ssl_certs :: "env \<Rightarrow> string" where
  "load_default_ssl_certs e =
     (let der_certs = get_ca_certs e;
          pem_certs = map DER_cert_to_PEM_cert der_certs
      in str_encode (str_join ''\<newline>'' pem_certs))"

definition create_grpc_ssl_config ::
  "env \<Rightarrow> string \<Rightarrow> bool \<Rightarrow> bool \<Rightarrow> py_error + GRPCSSLConfig" where
  "create_grpc_ssl_config e address do_verify_ssl do_force_cadata_load =
     (if do_verify_ssl
      then Inr \<lparr>cadata = (if do_force_cadata_load then Some (load_default_ssl_certs e) else None),
                hostname_override = None\<rparr>
      else
        case unpack_2 (str_split_1 CHR '':'' address) of
          Inl err \<Rightarrow> Inl err
        | Inr (host, port) \<Rightarrow>
        (case py_int port of
          Inl err \<Rightarrow> Inl err
        | Inr port_number \<Rightarrow>
        (case get_server_certificate e host port_number of
          Inl err \<Rightarrow> Inl err
        | Inr pem \<Rightarrow>
        (let cadata = str_encode pem in
        (case load_pem_x509_certificate e cadata of
          Inl err \<Rightarrow> Inl err
        | Inr cert \<Rightarrow>
        (case extensions cert of
          Inl err \<Rightarrow> Inl err
        | Inr exts \<Rightarrow>
        (case get_extension_for_oid_SAN exts of
          Inl err \<Rightarrow> Inl err
        | Inr names \<Rightarrow>
        (case index_0 (get_values_for_type_DNSName names) of
          Inl err \<Rightarrow> Inl err
        | Inr name \<Rightarrow>
            Inr \<lparr>cadata = Some cadata, hostname_override = Some name\<rparr>))))))))"

subsection \<open>\<open>json.dumps\<close>\<close>

text \<open>
  The documents the module serialises are built from dictionaries (in insertion order),
  lists, strings and integers. \<open>json.dumps\<close> with its defaults separates items by a comma
  and a space, keys from values by a colon and a space, and escapes in a string the quote,
  the backslash and every character outside the printable ASCII range.
\<close>

datatype json =
    JObject "(string \<times> json) list"
  | JArray "json list"
  | JString string
  | JInt int

function str_of_nat :: "nat \<Rightarrow> string" where
  "str_of_nat n =
     (if n < 10 then [char_of (48 + n)]
      else str_of_nat (n div 10) @ [char_of (48 + n mod 10)])"
  by pat_completeness auto
termination
  by (relation "measure (\<lambda>n. n)") auto

declare str_of_nat.simps [simp del]

definition str_of_int :: "int \<Rightarrow> string" where
  "str_of_int i = (if i < 0 then CHR ''-'' # str_of_nat (nat (- i)) else str_of_nat (nat i))"

definition hex_digit :: "nat \<Rightarrow> char" where
  "hex_digit n = ''0123456789abcdef'' ! (n mod 16)"

definition escape_char :: "char \<Rightarrow> string" where
  "escape_char c =
     (if c = CHR 0x5C then [CHR 0x5C, CHR 0x5C]
      else if c = CHR 0x22 then [CHR 0x5C, CHR 0x22]
      else if c = CHR 0x08 then [CHR 0x5C, CHR ''b'']
      else if c = CHR 0x0C then [CHR 0x5C, CHR ''f'']
      else if c = CHR 0x0A then [CHR 0x5C, CHR ''n'']
      else if c = CHR 0x0D then [CHR 0x5C, CHR ''r'']
      else if c = CHR 0x09 then [CHR 0x5C, CHR ''t'']
      else if 32 \<le> (of_char c :: nat) \<and> (of_char c :: nat) \<le> 126 then [c]
      else [CHR 0x5C, CHR ''u'', CHR ''0'', CHR ''0'',
            hex_digit (of_char c div 16), hex_digit (of_char c)])"

definition encode_basestring_ascii :: "string \<Rightarrow> string" where
  "encode_basestring_ascii s = [CHR 0x22] @ concat (map escape_char s) @ [CHR 0x22]"

fun json_dumps :: "json \<Rightarrow> string" where
  "json_dumps (JInt i) = str_of_int i"
| "json_dumps (JString s) = encode_basestring_ascii s"
| "json_dumps (JArray xs) = ''['' @ str_join '', '' (map json_dumps xs) @ '']''"
| "json_dumps (JObject kvs) =
     ''{'' @ str_join '', ''
              (map (\<lambda>kv. encode_basestring_ascii (fst kv) @ '': '' @ json_dumps (snd kv)) kvs)
      @ ''}''"

text \<open>Reading a document: the keys of an object in order, the value under a key, the
  items of an array.\<close>

fun json_keys :: "json \<Rightarrow> string list" where
  "json_keys (JObject kvs) = map fst kvs"
| "json_keys _ = []"

fun json_field :: "string \<Rightarrow> json \<Rightarrow> json option" where
  "json_field k (JObject kvs) = map_of kvs k"
| "json_field k _ = None"

fun json_items :: "json \<Rightarrow> json list option" where
  "json_items (JArray xs) = Some xs"
| "json_items _ = None"

subsection \<open>List objects\<close>

text \<open>
  A Python list is a mutable object and the caller of \<open>create_grpc_channel\<close> keeps a
  reference to the list it passes. The lists live in a heap, a list of cells; a reference
  is the index of a cell. A reference held by a caller is one below the heap's length.
\<close>

datatype option_value = StrValue string | IntValue int

type_synonym channel_option = "string \<times> option_value"

type_synonym ref = nat

type_synonym heap = "channel_option list list"

definition list_new :: "heap \<Rightarrow> channel_option list \<Rightarrow> ref \<times> heap" where
  "list_new h xs = (length h, h @ [xs])"

definition list_copy :: "heap \<Rightarrow> ref \<Rightarrow> ref \<times> heap" where
  "list_copy h r = list_new h (h ! r)"

definition list_append :: "heap \<Rightarrow> ref \<Rightarrow> channel_option \<Rightarrow> heap" where
  "list_append h r x = h[r := h ! r @ [x]]"

subsection \<open>What gRPC is handed\<close>

text \<open>
  The channel is opaque to the module; the model keeps what the module passes to
  \<open>grpc.secure_channel\<close> (the target, the credentials, the contents of the options list at
  that moment) and to \<open>grpc.intercept_channel\<close>, which wraps the channel once per
  interceptor, last interceptor first, so that the first of the list is the outermost
  wrapper and is given control first:
  \<^verbatim>\<open>
  for interceptor in reversed(list(interceptors)):
      channel = _Channel(channel, interceptor)
  \<close>
\<close>

datatype interceptor =
    RequestIdInterceptor
  | TrackingClientInterceptor
  | GRPCErrorClientInterceptor
  | LogRpcCallsInterceptor string

datatype call_credentials = AccessTokenCallCredentials string

datatype channel_credentials =
    SslChannelCredentials "string option"
  | CompositeChannelCredentials channel_credentials call_credentials

datatype channel =
    SecureChannel string channel_credentials "channel_option list"
  | InterceptedChannel channel interceptor

definition intercept_channel :: "channel \<Rightarrow> interceptor list \<Rightarrow> channel" where
  "intercept_channel ch interceptors = foldl InterceptedChannel ch (rev interceptors)"

text \<open>The interceptors of a channel in the order they are given control (outermost
  wrapper first), and the options its transport was opened with.\<close>

fun interception_order :: "channel \<Rightarrow> interceptor list" where
  "interception_order (SecureChannel _ _ _) = []"
| "interception_order (InterceptedChannel ch i) = i # interception_order ch"

fun transport_options :: "channel \<Rightarrow> channel_option list" where
  "transport_options (SecureChannel _ _ opts) = opts"
| "transport_options (InterceptedChannel ch _) = transport_options ch"

subsection \<open>\<open>create_grpc_channel\<close>\<close>

definition retry_service_config :: json where
  "retry_service_config =
     JObject [
       (''methodConfig'', JArray [
          JObject [
            (''name'', JArray [JObject []]),
            (''retryPolicy'', JObject [
               (''maxAttempts'', JInt 5),
               (''initialBackoff'', JString ''0.3s''),
               (''maxBackoff'', JString ''30s''),
               (''backoffMultiplier'', JInt 3),
               (''retryableStatusCodes'', JArray [JString ''UNAVAILABLE''])])]])]"

definition create_grpc_channel ::
  "env \<Rightarrow> heap \<Rightarrow> string \<Rightarrow> string \<Rightarrow> bool \<Rightarrow> string \<Rightarrow> ref option
     \<Rightarrow> (py_error + channel) \<times> heap" where
  "create_grpc_channel e h address access_token do_verify_ssl logs_file_path options =
     (let (options1, h1) = (case options of None \<Rightarrow> list_new h [] | Some r \<Rightarrow> (r, h));
          (options2, h2) = list_copy h1 options1
      in case create_grpc_ssl_config e address do_verify_ssl False of
           Inl err \<Rightarrow> (Inl err, h2)
         | Inr ssl_config \<Rightarrow>
           (let h3 = (if truthy (hostname_override ssl_config)
                      then (case hostname_override ssl_config of
                              Some name \<Rightarrow>
                                list_append h2 options2
                                  (''grpc.ssl_target_name_override'', StrValue name)
                            | None \<Rightarrow> h2)
                      else h2);
                json_config = json_dumps retry_service_config;
                h4 = list_append h3 options2 (''grpc.enable_retries'', IntValue 1);
                h5 = list_append h4 options2 (''grpc.service_config'', StrValue json_config);
                h6 = list_append h5 options2 (''grpc.keepalive_time_ms'', IntValue 60000);
                h7 = list_append h6 options2 (''grpc.keepalive_timeout_ms'', IntValue 5000);
                h8 = list_append h7 options2 (''grpc.keepalive_permit_without_calls'', IntValue 1);
                h9 = list_append h8 options2 (''grpc.http2.max_pings_without_data'', IntValue 0);
                credentials = SslChannelCredentials (cadata ssl_config);
                client_interceptors =
                  [RequestIdInterceptor,
                   TrackingClientInterceptor,
                   GRPCErrorClientInterceptor,
                   LogRpcCallsInterceptor logs_file_path]
            in (Inr (intercept_channel
                       (SecureChannel address
                          (CompositeChannelCredentials credentials
                             (AccessTokenCallCredentials access_token))
                          (h9 ! options2))
                       client_interceptors),
                h9)))"

subsection \<open>Notions the properties are stated with\<close>

text \<open>The first entry of DNS type among the names of a Subject Alternative Name
  extension, if there is one.\<close>

fun is_DNSName :: "general_name \<Rightarrow> bool" where
  "is_DNSName (DNSName _) = True"
| "is_DNSName _ = False"

definition first_dns_name :: "general_name list \<Rightarrow> string option" where
  "first_dns_name names =
     (case List.find is_DNSName names of Some (DNSName d) \<Rightarrow> Some d | _ \<Rightarrow> None)"

text \<open>A PEM certificate block: the header line, Base64 lines, the footer line.\<close>

definition is_pem_block :: "string \<Rightarrow> bool" where
  "is_pem_block b =
     (prefix (PEM_HEADER @ ''\<newline>'') b \<and> suffix (''\<newline>'' @ PEM_FOOTER @ ''\<newline>'') b)"

text \<open>The list the caller passed, as it was before the call: \<open>options=None\<close> stands for
  the empty list.\<close>

definition caller_options :: "heap \<Rightarrow> ref option \<Rightarrow> channel_option list" where
  "caller_options h options = (case options of None \<Rightarrow> [] | Some r \<Rightarrow> h ! r)"

text \<open>
  How gRPC reads the retry policy of a service configuration (proposal A6, which the
  module's comment cites). A duration is decimal seconds followed by \<open>s\<close>.
  \<open>maxAttempts\<close> counts the original attempt, so there are \<open>maxAttempts - 1\<close> retries.
  The nominal backoff before retry \<open>k + 1\<close> is
  \<open>min (initialBackoff * backoffMultiplier ^ k) maxBackoff\<close>; the delay gRPC really waits is
  that value scaled by a random factor (between 0 and 1 in the proposal, between 0.8 and
  1.2 in later releases).
\<close>

record retry_policy =
  maxAttempts :: nat
  initialBackoff :: real
  maxBackoff :: real
  backoffMultiplier :: real

definition duration_seconds :: "string \<Rightarrow> real option" where
  "duration_seconds s =
     (if s = [] then None
      else if last s \<noteq> CHR ''s'' then None
      else
        let body = butlast s;
            whole = takeWhile (\<lambda>c. c \<noteq> CHR ''.'') body;
            frac = drop (Suc (length whole)) body
        in if whole \<noteq> [] \<and> list_all is_digit whole \<and> list_all is_digit frac
              \<and> (if CHR ''.'' \<in> set body then frac \<noteq> [] else True)
           then Some (of_int (digits_value whole) + of_int (digits_value frac) / 10 ^ length frac)
           else None)"

definition retry_policy_of :: "json \<Rightarrow> retry_policy option" where
  "retry_policy_of doc =
     (case json_field ''methodConfig'' doc of
        Some (JArray (method_config # _)) \<Rightarrow>
          (case json_field ''retryPolicy'' method_config of
             Some rp \<Rightarrow>
               (case (json_field ''maxAttempts'' rp, json_field ''backoffMultiplier'' rp) of
                  (Some (JInt n), Some (JInt m)) \<Rightarrow>
                    (case (json_field ''initialBackoff'' rp, json_field ''maxBackoff'' rp) of
                       (Some (JString a), Some (JString b)) \<Rightarrow>
                         (case (duration_seconds a, duration_seconds b) of
                            (Some x, Some y) \<Rightarrow>
                              Some \<lparr>maxAttempts = nat n, initialBackoff = x, maxBackoff = y,
                                    backoffMultiplier = of_int m\<rparr>
                          | _ \<Rightarrow> None)
                     | _ \<Rightarrow> None)
                | _ \<Rightarrow> None)
           | None \<Rightarrow> None)
      | _ \<Rightarrow> None)"

definition nominal_backoff :: "retry_policy \<Rightarrow> nat \<Rightarrow> real" where
  "nominal_backoff p k = min (initialBackoff p * backoffMultiplier p ^ k) (maxBackoff p)"

text \<open>The nominal time from the first attempt to the start of attempt \<open>n\<close> (attempts are
  numbered from 1), when every attempt fails at once: the sum of the backoffs before the
  \<open>n - 1\<close> retries.\<close>

definition nominal_start :: "retry_policy \<Rightarrow> nat \<Rightarrow> real" where
  "nominal_start p n = sum_list (map (nominal_backoff p) [0..<n - 1])"

subsection \<open>An example environment\<close>

text \<open>
  Four TLS endpoints answer: \<open>self-signed.local:443\<close> with a certificate whose Subject
  Alternative Name holds an IP address and two DNS names, \<open>no-san.local:443\<close> with a
  certificate without that extension, \<open>empty-san.local:443\<close> with one whose only DNS name
  is the empty string, \<open>dup-san.local:443\<close> with one that has two Subject Alternative Name
  extensions, so that reading its extensions raises \<open>DuplicateExtension\<close>. Every other host
  does not resolve. The trust store holds two certificates (their DER bytes are
  stand-ins).
\<close>

definition example_pem :: string where
  "example_pem = ''-----BEGIN CERTIFICATE-----\<newline>TWFu\<newline>-----END CERTIFICATE-----\<newline>''"

definition no_san_pem :: string where
  "no_san_pem = ''-----BEGIN CERTIFICATE-----\<newline>YWJj\<newline>-----END CERTIFICATE-----\<newline>''"

definition empty_san_pem :: string where
  "empty_san_pem = ''-----BEGIN CERTIFICATE-----\<newline>eHl6\<newline>-----END CERTIFICATE-----\<newline>''"

definition dup_san_pem :: string where
  "dup_san_pem = ''-----BEGIN CERTIFICATE-----\<newline>ZHVw\<newline>-----END CERTIFICATE-----\<newline>''"

definition example_certificate :: certificate where
  "example_certificate =
     \<lparr>extensions =
        Inr \<lparr>subject_alternative_name =
               Some [IPAddress ''10.0.0.1'', DNSName ''layer.internal'', DNSName ''alt.internal''],
             other_extensions = [''2.5.29.15'']\<rparr>\<rparr>"

definition no_san_certificate :: certificate where
  "no_san_certificate =
     \<lparr>extensions = Inr \<lparr>subject_alternative_name = None, other_extensions = [''2.5.29.15'']\<rparr>\<rparr>"

definition empty_san_certificate :: certificate where
  "empty_san_certificate =
     \<lparr>extensions = Inr \<lparr>subject_alternative_name = Some [DNSName []], other_extensions = []\<rparr>\<rparr>"

definition dup_san_certificate :: certificate where
  "dup_san_certificate = \<lparr>extensions = Inl DuplicateExtension\<rparr>"

definition example_env :: env where
  "example_env =
     \<lparr>get_server_certificate =
        (\<lambda>host port.
           if host = ''self-signed.local'' \<and> port = 443 then Inr example_pem
           else if host = ''no-san.local'' \<and> port = 443 then Inr no_san_pem
           else if host = ''empty-san.local'' \<and> port = 443 then Inr empty_san_pem
           else if host = ''dup-san.local'' \<and> port = 443 then Inr dup_san_pem
           else Inl (OtherError ''gaierror'')),
      load_pem_x509_certificate =
        (\<lambda>data.
           if data = example_pem then Inr example_certificate
           else if data = no_san_pem then Inr no_san_certificate
           else if data = empty_san_pem then Inr empty_san_certificate
           else if data = dup_san_pem then Inr dup_san_certificate
           else Inl ValueError),
      get_ca_certs = [''Man'', ''abc'']\<rparr>"

text \<open>The same platform with no certificate loaded in the default context (a trust store
  that is empty, or one of hashed directories, whose certificates load on demand).\<close>

definition empty_store_env :: env where
  "empty_store_env = example_env\<lparr>get_ca_certs := []\<rparr>"

section \<open>Facts about the built-ins and the library functions\<close>

lemma unpack_2_Inr: "unpack_2 xs = Inr (a, b) \<longleftrightarrow> xs = [a, b]"
  by (cases xs rule: unpack_2.cases) auto

lemma unpack_split:
  "unpack_2 (str_split_1 sep s) =
     (if sep \<in> set s
      then Inr (takeWhile (\<lambda>c. c \<noteq> sep) s, tl (dropWhile (\<lambda>c. c \<noteq> sep) s))
      else Inl ValueError)"
  by (simp add: str_split_1_def)

lemma py_int_Inl: "py_int s = Inl err \<Longrightarrow> err = ValueError"
  by (auto simp: py_int_def Let_def split: if_splits)

lemma get_extension_for_oid_SAN_Inl:
  "get_extension_for_oid_SAN exts = Inl err \<Longrightarrow> err = ExtensionNotFound"
  by (auto simp: get_extension_for_oid_SAN_def split: option.splits)

text \<open>Indexing the DNS names at 0 finds the first name of DNS type, and raises
  \<open>IndexError\<close> when there is none.\<close>

lemma index_0_first_dns_name:
  "index_0 (get_values_for_type_DNSName names) =
     (case first_dns_name names of None \<Rightarrow> Inl IndexError | Some d \<Rightarrow> Inr d)"
  by (induction names rule: get_values_for_type_DNSName.induct)
     (simp_all add: first_dns_name_def)

lemma str_join_Cons: "ys \<noteq> [] \<Longrightarrow> str_join sep (x # ys) = x @ sep @ str_join sep ys"
  by (cases ys) simp_all

lemma str_join_snoc: "xs \<noteq> [] \<Longrightarrow> str_join sep (xs @ [z]) = str_join sep xs @ sep @ z"
  by (induction sep xs rule: str_join.induct) simp_all

lemma str_join_eq_Nil:
  "str_join sep xs = [] \<longleftrightarrow>
     xs = [] \<or> (sep = [] \<and> (\<forall>x\<in>set xs. x = [])) \<or> xs = [[]]"
  by (induction sep xs rule: str_join.induct) auto

lemma set_str_join: "set (str_join sep xs) \<subseteq> set sep \<union> \<Union> (set ` set xs)"
  by (induction sep xs rule: str_join.induct) auto

lemma slices_Nil: "slices n [] = []"
  by (simp add: slices.simps)

lemma slices_short: "xs \<noteq> [] \<Longrightarrow> length xs \<le> n \<Longrightarrow> slices n xs = [xs]"
  by (subst slices.simps) (cases xs, auto simp: slices_Nil)

lemma set_slices: "ys \<in> set (slices n xs) \<Longrightarrow> set ys \<subseteq> set xs"
proof (induction n xs rule: slices.induct)
  case (1 n xs)
  from "1.prems" have "n \<noteq> 0" "xs \<noteq> []" and
    ys: "ys = take n xs \<or> ys \<in> set (slices n (drop n xs))"
    by (subst (asm) slices.simps, simp split: if_splits)+
  from ys show ?case
  proof
    assume "ys = take n xs"
    then show ?thesis by (auto dest: in_set_takeD)
  next
    assume "ys \<in> set (slices n (drop n xs))"
    with "1.IH" \<open>n \<noteq> 0\<close> \<open>xs \<noteq> []\<close> have "set ys \<subseteq> set (drop n xs)"
      by simp
    then show ?thesis by (auto dest: in_set_dropD)
  qed
qed

lemma DER_cert_to_PEM_cert_eq:
  "DER_cert_to_PEM_cert der =
     PEM_HEADER @ ''\<newline>'' @
     str_join ''\<newline>'' (slices 64 (standard_b64encode der) @ [PEM_FOOTER @ ''\<newline>''])"
  by (simp add: DER_cert_to_PEM_cert_def Let_def str_join_Cons)

lemma suffix_last_line: "suffix (sep @ z) (sep @ str_join sep (xs @ [z]))"
proof (cases "xs = []")
  case True
  then show ?thesis by simp
next
  case False
  then show ?thesis
    by (simp add: str_join_snoc suffix_def)
qed

lemma DER_cert_to_PEM_cert_is_pem_block: "is_pem_block (DER_cert_to_PEM_cert der)"
  unfolding is_pem_block_def DER_cert_to_PEM_cert_eq
  using suffix_last_line [of "''\<newline>''" "PEM_FOOTER @ ''\<newline>''"
      "slices 64 (standard_b64encode der)"]
  by (simp add: suffix_def) (metis append.assoc)

lemma DER_cert_to_PEM_cert_not_Nil: "DER_cert_to_PEM_cert der \<noteq> []"
  by (simp add: DER_cert_to_PEM_cert_eq PEM_HEADER_def)

subsection \<open>Encoding ASCII text changes nothing\<close>

lemma str_encode_ascii: "\<forall>c\<in>set s. (of_char c :: nat) < 128 \<Longrightarrow> str_encode s = s"
  by (induction s) (simp_all add: str_encode_def encode_char_def)

text \<open>A character above 127 becomes two bytes.\<close>

lemma str_encode_e_acute: "str_encode [CHR ''a'', CHR 0xE9] = [CHR ''a'', CHR 0xC3, CHR 0xA9]"
  by code_simp

lemma b64_char_ascii: "(of_char (b64_char n) :: nat) < 128"
proof -
  have "\<forall>c\<in>set ''ABCDEFGHIJKLMNOPQRSTUVWXYZabcdefghijklmnopqrstuvwxyz0123456789+/''.
          (of_char c :: nat) < 128"
    by simp
  moreover have
    "b64_char n \<in> set ''ABCDEFGHIJKLMNOPQRSTUVWXYZabcdefghijklmnopqrstuvwxyz0123456789+/''"
    unfolding b64_char_def by (rule nth_mem) simp
  ultimately show ?thesis by blast
qed

lemma standard_b64encode_ascii: "\<forall>c\<in>set (standard_b64encode s). (of_char c :: nat) < 128"
  by (induction s rule: standard_b64encode.induct) (simp_all add: Let_def b64_char_ascii)

lemma DER_cert_to_PEM_cert_ascii:
  "\<forall>c\<in>set (DER_cert_to_PEM_cert der). (of_char c :: nat) < 128"
proof
  fix c
  assume "c \<in> set (DER_cert_to_PEM_cert der)"
  then have "c \<in> set PEM_HEADER \<or> c = CHR ''\<newline>'' \<or> c \<in> set PEM_FOOTER
      \<or> (\<exists>ys\<in>set (slices 64 (standard_b64encode der)). c \<in> set ys)"
    unfolding DER_cert_to_PEM_cert_eq
    using set_str_join [of "''\<newline>''"
        "slices 64 (standard_b64encode der) @ [PEM_FOOTER @ ''\<newline>'']"]
    by auto
  then show "(of_char c :: nat) < 128"
  proof (elim disjE bexE)
    assume "c \<in> set PEM_HEADER"
    then show ?thesis by (auto simp: PEM_HEADER_def)
  next
    assume "c = CHR ''\<newline>''"
    then show ?thesis by simp
  next
    assume "c \<in> set PEM_FOOTER"
    then show ?thesis by (auto simp: PEM_FOOTER_def)
  next
    fix ys
    assume "ys \<in> set (slices 64 (standard_b64encode der))" "c \<in> set ys"
    then have "c \<in> set (standard_b64encode der)"
      using set_slices by blast
    then show ?thesis
      using standard_b64encode_ascii by blast
  qed
qed

lemma load_default_ssl_certs_eq:
  "load_default_ssl_certs e = str_join ''\<newline>'' (map DER_cert_to_PEM_cert (get_ca_certs e))"
proof -
  have "\<forall>c\<in>set (str_join ''\<newline>'' (map DER_cert_to_PEM_cert (get_ca_certs e))).
          (of_char c :: nat) < 128"
    using set_str_join [of "''\<newline>''" "map DER_cert_to_PEM_cert (get_ca_certs e)"]
      DER_cert_to_PEM_cert_ascii
    by auto
  then show ?thesis
    by (simp add: load_default_ssl_certs_def str_encode_ascii)
qed

subsection \<open>\<open>int\<close>, evaluated\<close>

lemma py_int_443: "py_int ''443'' = Inr 443"
  by (simp add: py_int_def py_strip_def py_isspace_def is_digit_def digits_value_def
      digits_count_def int_max_str_digits_def)

text \<open>The whitespace characters 0x85 and 0xA0 around a port are skipped; the separator
  0x1C is not.\<close>

lemma py_int_latin1_space:
  "py_int ([CHR 0x85] @ ''443'' @ [CHR 0xA0]) = Inr 443"
  by (simp add: py_int_def py_strip_def py_isspace_def is_digit_def digits_value_def
      digits_count_def int_max_str_digits_def)

lemma py_int_separator: "py_int ([CHR 0x1C] @ ''443'') = Inl ValueError"
  by (simp add: py_int_def py_strip_def py_isspace_def is_digit_def)

text \<open>Text of 4301 digits is refused.\<close>

lemma py_int_digit_limit: "py_int (replicate 4301 CHR ''1'') = Inl ValueError"
  by (simp add: py_int_def py_strip_def py_isspace_def digits_count_def
      int_max_str_digits_def Let_def)

subsection \<open>The example environment, evaluated\<close>

lemma split_self_signed:
  "str_split_1 CHR '':'' ''self-signed.local:443'' = [''self-signed.local'', ''443'']"
  by (simp add: str_split_1_def)

lemma split_unknown:
  "str_split_1 CHR '':'' ''unknown.host:443'' = [''unknown.host'', ''443'']"
  by (simp add: str_split_1_def)

lemma split_no_san: "str_split_1 CHR '':'' ''no-san.local:443'' = [''no-san.local'', ''443'']"
  by (simp add: str_split_1_def)

lemma split_empty_san:
  "str_split_1 CHR '':'' ''empty-san.local:443'' = [''empty-san.local'', ''443'']"
  by (simp add: str_split_1_def)

lemma split_dup_san:
  "str_split_1 CHR '':'' ''dup-san.local:443'' = [''dup-san.local'', ''443'']"
  by (simp add: str_split_1_def)

lemma encode_example_pems:
  "str_encode example_pem = example_pem"
  "str_encode no_san_pem = no_san_pem"
  "str_encode empty_san_pem = empty_san_pem"
  "str_encode dup_san_pem = dup_san_pem"
  by (simp_all add: str_encode_def encode_char_def example_pem_def no_san_pem_def
      empty_san_pem_def dup_san_pem_def)

lemma fetch_self_signed:
  "get_server_certificate example_env ''self-signed.local'' 443 = Inr example_pem"
  by (simp add: example_env_def)

lemma load_example_pem:
  "load_pem_x509_certificate example_env (str_encode example_pem) = Inr example_certificate"
  by (simp add: example_env_def encode_example_pems)

lemma fetch_no_san:
  "get_server_certificate example_env ''no-san.local'' 443 = Inr no_san_pem"
  by (simp add: example_env_def)

lemma load_no_san:
  "load_pem_x509_certificate example_env (str_encode no_san_pem) = Inr no_san_certificate"
  unfolding encode_example_pems
  by (simp add: example_env_def example_pem_def no_san_pem_def)

lemma fetch_dup_san:
  "get_server_certificate example_env ''dup-san.local'' 443 = Inr dup_san_pem"
  by (simp add: example_env_def)

lemma load_dup_san:
  "load_pem_x509_certificate example_env (str_encode dup_san_pem) = Inr dup_san_certificate"
  unfolding encode_example_pems
  by (simp add: example_env_def example_pem_def no_san_pem_def empty_san_pem_def
      dup_san_pem_def)

lemma pem_Man:
  "DER_cert_to_PEM_cert ''Man'' =
     ''-----BEGIN CERTIFICATE-----\<newline>TWFu\<newline>-----END CERTIFICATE-----\<newline>''"
  by (simp add: DER_cert_to_PEM_cert_def slices_short b64_char_def PEM_HEADER_def PEM_FOOTER_def)

lemma pem_abc:
  "DER_cert_to_PEM_cert ''abc'' =
     ''-----BEGIN CERTIFICATE-----\<newline>YWJj\<newline>-----END CERTIFICATE-----\<newline>''"
  by (simp add: DER_cert_to_PEM_cert_def slices_short b64_char_def PEM_HEADER_def PEM_FOOTER_def)

section \<open>Trust resolution\<close>

lemma create_grpc_ssl_config_pinned:
  assumes "str_split_1 CHR '':'' address = [host, port]"
    and "py_int port = Inr n"
    and "get_server_certificate e host n = Inr pem"
    and "load_pem_x509_certificate e (str_encode pem) = Inr cert"
    and "extensions cert = Inr exts"
    and "get_extension_for_oid_SAN exts = Inr names"
    and "first_dns_name names = Some d"
  shows "create_grpc_ssl_config e address False force =
           Inr \<lparr>cadata = Some (str_encode pem), hostname_override = Some d\<rparr>"
  using assms by (simp add: create_grpc_ssl_config_def Let_def index_0_first_dns_name)

text \<open>
  C1, as amended. With \<open>do_verify_ssl\<close> false, \<open>create_grpc_ssl_config\<close> wraps no error and has
  errors of its own. It raises exactly in these cases: \<open>ValueError\<close> when the address has no
  colon or the text after the first colon is not an integer literal; the error of the
  certificate retrieval, unchanged, when the retrieval raises; the error of the parser,
  unchanged, when the parser raises; the error of reading the extensions of the parsed
  certificate, unchanged, when that raises (\<open>DuplicateExtension\<close>, for one);
  \<open>ExtensionNotFound\<close> when the certificate has no Subject Alternative Name extension;
  \<open>IndexError\<close> when that extension has no name of DNS type.
\<close>

theorem trust_resolution_errors:
  "create_grpc_ssl_config e address False force = Inl err \<longleftrightarrow>
     (CHR '':'' \<notin> set address \<and> err = ValueError) \<or>
     (\<exists>host port. str_split_1 CHR '':'' address = [host, port] \<and>
        (py_int port = Inl ValueError \<and> err = ValueError \<or>
         (\<exists>n. py_int port = Inr n \<and>
            (get_server_certificate e host n = Inl err \<or>
             (\<exists>pem. get_server_certificate e host n = Inr pem \<and>
                (load_pem_x509_certificate e (str_encode pem) = Inl err \<or>
                 (\<exists>cert. load_pem_x509_certificate e (str_encode pem) = Inr cert \<and>
                    (extensions cert = Inl err \<or>
                     (\<exists>exts. extensions cert = Inr exts \<and>
                        (get_extension_for_oid_SAN exts = Inl ExtensionNotFound
                           \<and> err = ExtensionNotFound \<or>
                         (\<exists>names. get_extension_for_oid_SAN exts = Inr names \<and>
                            first_dns_name names = None \<and> err = IndexError)))))))))))"
  (is "?L \<longleftrightarrow> ?R")
proof
  assume ?L
  show ?R
  proof (cases "CHR '':'' \<in> set address")
    case False
    with \<open>?L\<close> show ?thesis
      by (simp add: create_grpc_ssl_config_def Let_def unpack_split)
  next
    case True
    then obtain host port where "str_split_1 CHR '':'' address = [host, port]"
      by (simp add: str_split_1_def)
    with \<open>?L\<close> show ?thesis
      by (auto simp: create_grpc_ssl_config_def Let_def index_0_first_dns_name
               dest: py_int_Inl get_extension_for_oid_SAN_Inl
               split: sum.splits option.splits)
  qed
next
  assume ?R
  then show ?L
  proof (elim disjE exE conjE)
    assume "CHR '':'' \<notin> set address" "err = ValueError"
    then show ?L by (simp add: create_grpc_ssl_config_def Let_def unpack_split)
  qed (simp_all add: create_grpc_ssl_config_def Let_def index_0_first_dns_name)
qed

text \<open>At a host that does not resolve, the error of the retrieval comes out as it is.\<close>

theorem trust_resolution_errors_witness:
  "create_grpc_ssl_config example_env ''unknown.host:443'' False False =
     Inl (OtherError ''gaierror'')"
proof -
  have "get_server_certificate example_env ''unknown.host'' 443 = Inl (OtherError ''gaierror'')"
    by (simp add: example_env_def)
  then show ?thesis
    using split_unknown py_int_443
    by (intro iffD2 [OF trust_resolution_errors]) blast
qed

text \<open>
  C1 as stated fails: the address \<open>localhost\<close>, without a port, raises \<open>ValueError\<close> before
  any certificate is retrieved; a certificate without a Subject Alternative Name raises
  the library's \<open>ExtensionNotFound\<close>, and one with two of them its \<open>DuplicateExtension\<close>.
\<close>

theorem trust_resolution_errors_counterexample:
  "create_grpc_ssl_config example_env ''localhost'' False False = Inl ValueError
   \<and> ValueError \<noteq> ConnectionError \<and> ValueError \<noteq> CertificateParseError
   \<and> create_grpc_ssl_config example_env ''no-san.local:443'' False False = Inl ExtensionNotFound
   \<and> ExtensionNotFound \<noteq> CertificateParseError
   \<and> create_grpc_ssl_config example_env ''dup-san.local:443'' False False = Inl DuplicateExtension
   \<and> DuplicateExtension \<noteq> CertificateParseError"
proof -
  have a: "create_grpc_ssl_config example_env ''localhost'' False False = Inl ValueError"
    by (simp add: create_grpc_ssl_config_def Let_def str_split_1_def)
  have b: "create_grpc_ssl_config example_env ''no-san.local:443'' False False
             = Inl ExtensionNotFound"
    by (simp add: create_grpc_ssl_config_def Let_def split_no_san py_int_443 fetch_no_san load_no_san
        no_san_certificate_def get_extension_for_oid_SAN_def)
  have c: "create_grpc_ssl_config example_env ''dup-san.local:443'' False False
             = Inl DuplicateExtension"
    by (simp add: create_grpc_ssl_config_def Let_def split_dup_san py_int_443 fetch_dup_san load_dup_san
        dup_san_certificate_def)
  from a b c show ?thesis by simp
qed

text \<open>
  C2. With \<open>do_verify_ssl\<close> false, \<open>create_grpc_ssl_config\<close> returns a configuration exactly
  when the address is \<open>host:port\<close> with an integer port, the handshake with that endpoint
  yields a certificate, the certificate and its extensions parse, and its Subject
  Alternative Name has a name of DNS type; the configuration returned then has the bytes
  of the PEM text of the fetched certificate, as fetched, for \<open>cadata\<close> and the first name of
  DNS type for \<open>hostname_override\<close>.
\<close>

theorem pinned_leaf_certificate:
  "create_grpc_ssl_config e address False force = Inr cfg \<longleftrightarrow>
     (\<exists>host port n pem cert exts names d.
        str_split_1 CHR '':'' address = [host, port] \<and> py_int port = Inr n \<and>
        get_server_certificate e host n = Inr pem \<and>
        load_pem_x509_certificate e (str_encode pem) = Inr cert \<and>
        extensions cert = Inr exts \<and>
        get_extension_for_oid_SAN exts = Inr names \<and>
        first_dns_name names = Some d \<and>
        cfg = \<lparr>cadata = Some (str_encode pem), hostname_override = Some d\<rparr>)"
  (is "?L \<longleftrightarrow> ?R")
proof
  assume ?L
  then show ?R
    by (auto simp: create_grpc_ssl_config_def Let_def index_0_first_dns_name unpack_2_Inr
             split: sum.splits option.splits)
next
  assume ?R
  then show ?L
    by (auto simp: create_grpc_ssl_config_pinned)
qed

text \<open>The endpoint \<open>self-signed.local:443\<close>, and the same endpoint with the port written
  between the whitespace characters 0x85 and 0xA0, which \<open>int\<close> skips.\<close>

theorem pinned_leaf_certificate_witness:
  "create_grpc_ssl_config example_env ''self-signed.local:443'' False False =
     Inr \<lparr>cadata = Some example_pem, hostname_override = Some ''layer.internal''\<rparr>
   \<and> create_grpc_ssl_config example_env
        (''self-signed.local:'' @ [CHR 0x85] @ ''443'' @ [CHR 0xA0]) False False =
     Inr \<lparr>cadata = Some example_pem, hostname_override = Some ''layer.internal''\<rparr>"
proof -
  have dns: "first_dns_name
          [IPAddress ''10.0.0.1'', DNSName ''layer.internal'', DNSName ''alt.internal'']
        = Some ''layer.internal''"
    by (simp add: first_dns_name_def)
  have ext: "extensions example_certificate =
      Inr \<lparr>subject_alternative_name =
             Some [IPAddress ''10.0.0.1'', DNSName ''layer.internal'', DNSName ''alt.internal''],
           other_extensions = [''2.5.29.15'']\<rparr>"
    by (simp add: example_certificate_def)
  have san: "get_extension_for_oid_SAN
           \<lparr>subject_alternative_name =
              Some [IPAddress ''10.0.0.1'', DNSName ''layer.internal'', DNSName ''alt.internal''],
            other_extensions = [''2.5.29.15'']\<rparr> =
      Inr [IPAddress ''10.0.0.1'', DNSName ''layer.internal'', DNSName ''alt.internal'']"
    by (simp add: get_extension_for_oid_SAN_def)
  have split: "str_split_1 CHR '':'' (''self-signed.local:'' @ [CHR 0x85] @ ''443'' @ [CHR 0xA0])
      = [''self-signed.local'', [CHR 0x85] @ ''443'' @ [CHR 0xA0]]"
    by (simp add: str_split_1_def)
  have "create_grpc_ssl_config example_env ''self-signed.local:443'' False False =
     Inr \<lparr>cadata = Some (str_encode example_pem), hostname_override = Some ''layer.internal''\<rparr>"
    using split_self_signed py_int_443 fetch_self_signed load_example_pem ext san dns
    by (intro iffD2 [OF pinned_leaf_certificate]) blast
  moreover have "create_grpc_ssl_config example_env
        (''self-signed.local:'' @ [CHR 0x85] @ ''443'' @ [CHR 0xA0]) False False =
     Inr \<lparr>cadata = Some (str_encode example_pem), hostname_override = Some ''layer.internal''\<rparr>"
    using split py_int_latin1_space fetch_self_signed load_example_pem ext san dns
    by (intro iffD2 [OF pinned_leaf_certificate]) blast
  ultimately show ?thesis
    by (simp only: encode_example_pems simp_thms)
qed

text \<open>
  C8. With \<open>do_verify_ssl\<close> true and \<open>do_force_cadata_load\<close> false, whatever the address and
  the environment, \<open>create_grpc_ssl_config\<close> returns (it does not raise) the configuration
  with no \<open>cadata\<close> and no \<open>hostname_override\<close>.
\<close>

theorem verify_without_forced_load_is_default_trust:
  "create_grpc_ssl_config e address True False = Inr \<lparr>cadata = None, hostname_override = None\<rparr>"
  by (simp add: create_grpc_ssl_config_def Let_def)

text \<open>
  C9, as amended. With \<open>do_verify_ssl\<close> and \<open>do_force_cadata_load\<close> both true,
  \<open>create_grpc_ssl_config\<close> returns a configuration whose \<open>cadata\<close> is present and is the PEM
  encodings of the certificates loaded in the platform's default context, joined by
  newlines; every one of them is a PEM block; \<open>cadata\<close> is empty exactly when no certificate
  is loaded. No \<open>hostname_override\<close> is set.
\<close>

theorem forced_anchor_load:
  "create_grpc_ssl_config e address True True =
      Inr \<lparr>cadata = Some (str_join ''\<newline>'' (map DER_cert_to_PEM_cert (get_ca_certs e))),
            hostname_override = None\<rparr>
   \<and> list_all is_pem_block (map DER_cert_to_PEM_cert (get_ca_certs e))
   \<and> (str_join ''\<newline>'' (map DER_cert_to_PEM_cert (get_ca_certs e)) = []
        \<longleftrightarrow> get_ca_certs e = [])"
  by (auto simp: create_grpc_ssl_config_def Let_def load_default_ssl_certs_eq list_all_iff
      DER_cert_to_PEM_cert_is_pem_block str_join_eq_Nil DER_cert_to_PEM_cert_not_Nil)

theorem forced_anchor_load_witness:
  "create_grpc_ssl_config example_env ''example.com:443'' True True =
     Inr \<lparr>cadata = Some ''-----BEGIN CERTIFICATE-----\<newline>TWFu\<newline>-----END CERTIFICATE-----\<newline>\<newline>-----BEGIN CERTIFICATE-----\<newline>YWJj\<newline>-----END CERTIFICATE-----\<newline>'',
           hostname_override = None\<rparr>"
proof -
  have ca: "get_ca_certs example_env = [''Man'', ''abc'']"
    by (simp add: example_env_def)
  from forced_anchor_load [of example_env "''example.com:443''"]
  show ?thesis
    by (simp add: ca pem_Man pem_abc)
qed

text \<open>C9 as stated fails where the default context has no certificate loaded: \<open>cadata\<close> is
  present and empty, with no PEM block in it.\<close>

theorem forced_anchor_load_counterexample:
  "create_grpc_ssl_config empty_store_env ''example.com:443'' True True =
      Inr \<lparr>cadata = Some [], hostname_override = None\<rparr>"
  by (simp add: create_grpc_ssl_config_def Let_def load_default_ssl_certs_eq empty_store_env_def)

section \<open>The channel\<close>

subsection \<open>What a call returns\<close>

lemma list_append_last: "list_append (h @ [xs]) (length h) x = h @ [xs @ [x]]"
  by (simp add: list_append_def)

text \<open>
  When trust resolution returns, so does \<open>create_grpc_channel\<close>: the channel is the secure
  channel wrapped four times, its options are the caller's followed by the entries the
  function appends, and the heap has grown by the copy the function worked on (and by the
  empty list that stands for \<open>options=None\<close>).
\<close>

lemma create_grpc_channel_returns:
  assumes "create_grpc_ssl_config e address do_verify_ssl False = Inr cfg"
  shows "create_grpc_channel e h address access_token do_verify_ssl logs_file_path options =
     (Inr (InterceptedChannel
            (InterceptedChannel
              (InterceptedChannel
                (InterceptedChannel
                  (SecureChannel address
                     (CompositeChannelCredentials (SslChannelCredentials (cadata cfg))
                        (AccessTokenCallCredentials access_token))
                     (caller_options h options @
                      (case hostname_override cfg of
                         None \<Rightarrow> []
                       | Some name \<Rightarrow>
                           if name = [] then []
                           else [(''grpc.ssl_target_name_override'', StrValue name)]) @
                      [(''grpc.enable_retries'', IntValue 1),
                       (''grpc.service_config'', StrValue (json_dumps retry_service_config)),
                       (''grpc.keepalive_time_ms'', IntValue 60000),
                       (''grpc.keepalive_timeout_ms'', IntValue 5000),
                       (''grpc.keepalive_permit_without_calls'', IntValue 1),
                       (''grpc.http2.max_pings_without_data'', IntValue 0)]))
                  (LogRpcCallsInterceptor logs_file_path))
                GRPCErrorClientInterceptor)
              TrackingClientInterceptor)
            RequestIdInterceptor),
      (case options of None \<Rightarrow> h @ [[]] | Some r \<Rightarrow> h) @
      [caller_options h options @
       (case hostname_override cfg of
          None \<Rightarrow> []
        | Some name \<Rightarrow>
            if name = [] then []
            else [(''grpc.ssl_target_name_override'', StrValue name)]) @
       [(''grpc.enable_retries'', IntValue 1),
        (''grpc.service_config'', StrValue (json_dumps retry_service_config)),
        (''grpc.keepalive_time_ms'', IntValue 60000),
        (''grpc.keepalive_timeout_ms'', IntValue 5000),
        (''grpc.keepalive_permit_without_calls'', IntValue 1),
        (''grpc.http2.max_pings_without_data'', IntValue 0)]])"
proof (cases options)
  case None
  have "list_copy (h @ [[]]) (length h) = (Suc (length h), (h @ [[]]) @ [[]])"
    by (simp add: list_copy_def list_new_def)
  with None assms show ?thesis
    using list_append_last [of "h @ [[]]"]
    by (cases "hostname_override cfg")
       (simp_all add: create_grpc_channel_def list_new_def caller_options_def
          intercept_channel_def Let_def nth_append del: json_dumps.simps)
next
  case (Some r)
  have "list_copy h r = (length h, h @ [h ! r])"
    by (simp add: list_copy_def list_new_def)
  with Some assms show ?thesis
    using list_append_last [of h]
    by (cases "hostname_override cfg")
       (simp_all add: create_grpc_channel_def caller_options_def
          intercept_channel_def Let_def nth_append del: json_dumps.simps)
qed

text \<open>When trust resolution raises, the error propagates; the copy has been made by
  then.\<close>

lemma create_grpc_channel_raises:
  assumes "create_grpc_ssl_config e address do_verify_ssl False = Inl err"
  shows "create_grpc_channel e h address access_token do_verify_ssl logs_file_path options =
     (Inl err,
      (case options of None \<Rightarrow> h @ [[]] | Some r \<Rightarrow> h) @ [caller_options h options])"
  using assms
  by (cases options)
     (simp_all add: create_grpc_channel_def list_new_def list_copy_def caller_options_def)

subsection \<open>The retry document, evaluated\<close>

lemma str_of_nat_digit: "n < 10 \<Longrightarrow> str_of_nat n = [char_of (48 + n)]"
  by (simp add: str_of_nat.simps)

lemma char_of_digits: "char_of (53::nat) = CHR ''5''" "char_of (51::nat) = CHR ''3''"
  by code_simp+

lemma json_config_text:
  \<open>json_dumps retry_service_config =
     ''{"methodConfig": [{"name": [{}], "retryPolicy": {"maxAttempts": 5, "initialBackoff": "0.3s", "maxBackoff": "30s", "backoffMultiplier": 3, "retryableStatusCodes": ["UNAVAILABLE"]}}]}''\<close>
  by (simp add: retry_service_config_def encode_basestring_ascii_def escape_char_def
      str_of_int_def str_of_nat_digit char_of_digits)

lemma duration_initialBackoff: "duration_seconds ''0.3s'' = Some (3 / 10)"
  by (simp add: duration_seconds_def is_digit_def digits_value_def)

lemma duration_maxBackoff: "duration_seconds ''30s'' = Some 30"
  by (simp add: duration_seconds_def is_digit_def digits_value_def)

lemma retry_policy_of_config:
  "retry_policy_of retry_service_config =
     Some \<lparr>maxAttempts = 5, initialBackoff = 3 / 10, maxBackoff = 30, backoffMultiplier = 3\<rparr>"
  by (simp add: retry_policy_of_def retry_service_config_def duration_initialBackoff
      duration_maxBackoff)

lemma upt_small: "[0..<4] = [0, 1, 2, 3]" "[0..<5] = [0, 1, 2, 3, 4]"
  by (simp_all add: upt_rec)

subsection \<open>More of the example environment\<close>

lemma verify_config:
  "create_grpc_ssl_config e address True False = Inr \<lparr>cadata = None, hostname_override = None\<rparr>"
  by (simp add: create_grpc_ssl_config_def)

lemma extensions_example_certificate:
  "extensions example_certificate =
     Inr \<lparr>subject_alternative_name =
            Some [IPAddress ''10.0.0.1'', DNSName ''layer.internal'', DNSName ''alt.internal''],
          other_extensions = [''2.5.29.15'']\<rparr>"
  by (simp add: example_certificate_def)

lemma san_example_certificate:
  "get_extension_for_oid_SAN
     \<lparr>subject_alternative_name =
        Some [IPAddress ''10.0.0.1'', DNSName ''layer.internal'', DNSName ''alt.internal''],
      other_extensions = [''2.5.29.15'']\<rparr> =
     Inr [IPAddress ''10.0.0.1'', DNSName ''layer.internal'', DNSName ''alt.internal'']"
  by (simp add: get_extension_for_oid_SAN_def)

lemma first_dns_example:
  "first_dns_name [IPAddress ''10.0.0.1'', DNSName ''layer.internal'', DNSName ''alt.internal'']
     = Some ''layer.internal''"
  by (simp add: first_dns_name_def)

lemma config_self_signed:
  "create_grpc_ssl_config example_env ''self-signed.local:443'' False False =
     Inr \<lparr>cadata = Some example_pem, hostname_override = Some ''layer.internal''\<rparr>"
  using create_grpc_ssl_config_pinned
        [OF split_self_signed py_int_443 fetch_self_signed load_example_pem
            extensions_example_certificate san_example_certificate first_dns_example]
  by (simp only: encode_example_pems)

lemma fetch_empty_san:
  "get_server_certificate example_env ''empty-san.local'' 443 = Inr empty_san_pem"
  by (simp add: example_env_def)

lemma load_empty_san:
  "load_pem_x509_certificate example_env (str_encode empty_san_pem) = Inr empty_san_certificate"
  unfolding encode_example_pems
  by (simp add: example_env_def example_pem_def no_san_pem_def empty_san_pem_def)

lemma extensions_empty_san:
  "extensions empty_san_certificate =
     Inr \<lparr>subject_alternative_name = Some [DNSName []], other_extensions = []\<rparr>"
  by (simp add: empty_san_certificate_def)

subsection \<open>The options\<close>

text \<open>
  C3, as amended. Whenever trust resolution returns, \<open>create_grpc_channel\<close> returns a channel
  whose transport options are the caller's list followed by at most one
  \<open>grpc.ssl_target_name_override\<close> entry and then exactly six fixed entries:
  \<open>grpc.enable_retries\<close>, \<open>grpc.service_config\<close>, \<open>grpc.keepalive_time_ms\<close>,
  \<open>grpc.keepalive_timeout_ms\<close>, \<open>grpc.keepalive_permit_without_calls\<close> and
  \<open>grpc.http2.max_pings_without_data\<close>. The override entry is there only when the
  configuration has a hostname override (and that override is not the empty string), and
  it comes before the fixed entries.
\<close>

theorem channel_options_appended:
  assumes "create_grpc_ssl_config e address do_verify_ssl False = Inr cfg"
  shows "\<exists>ch h'.
     create_grpc_channel e h address access_token do_verify_ssl logs_file_path options = (Inr ch, h')
     \<and> transport_options ch =
         caller_options h options @
         (case hostname_override cfg of
            None \<Rightarrow> []
          | Some name \<Rightarrow>
              if name = [] then [] else [(''grpc.ssl_target_name_override'', StrValue name)]) @
         [(''grpc.enable_retries'', IntValue 1),
          (''grpc.service_config'', StrValue (json_dumps retry_service_config)),
          (''grpc.keepalive_time_ms'', IntValue 60000),
          (''grpc.keepalive_timeout_ms'', IntValue 5000),
          (''grpc.keepalive_permit_without_calls'', IntValue 1),
          (''grpc.http2.max_pings_without_data'', IntValue 0)]
     \<and> length (transport_options ch) =
         length (caller_options h options) + 6 + (if truthy (hostname_override cfg) then 1 else 0)"
  unfolding create_grpc_channel_returns [OF assms]
  by (cases "hostname_override cfg") (simp_all del: json_dumps.simps)

theorem channel_options_appended_witness:
  "\<exists>ch h'.
     create_grpc_channel example_env [[(''grpc.max_receive_message_length'', IntValue 1024)]]
       ''self-signed.local:443'' ''token123'' False ''/tmp/log'' (Some 0) = (Inr ch, h')
     \<and> transport_options ch =
         [(''grpc.max_receive_message_length'', IntValue 1024),
          (''grpc.ssl_target_name_override'', StrValue ''layer.internal''),
          (''grpc.enable_retries'', IntValue 1),
          (''grpc.service_config'', StrValue (json_dumps retry_service_config)),
          (''grpc.keepalive_time_ms'', IntValue 60000),
          (''grpc.keepalive_timeout_ms'', IntValue 5000),
          (''grpc.keepalive_permit_without_calls'', IntValue 1),
          (''grpc.http2.max_pings_without_data'', IntValue 0)]"
proof -
  from channel_options_appended [OF config_self_signed,
      of "[[(''grpc.max_receive_message_length'', IntValue 1024)]]" "''token123''" "''/tmp/log''"
         "Some 0"]
  show ?thesis
    by (simp add: caller_options_def del: json_dumps.simps) blast
qed

text \<open>C3 as stated fails: with certificate verification on and no options passed, the
  transport gets six entries, not four or five.\<close>

theorem channel_options_appended_counterexample:
  "(case fst (create_grpc_channel example_env [] ''example.com:443'' ''token123'' True
               ''/tmp/log'' None) of
      Inl err \<Rightarrow> False
    | Inr ch \<Rightarrow> length (transport_options ch) = length (caller_options [] None) + 6)"
  by (simp add: create_grpc_channel_returns [OF verify_config] caller_options_def
           del: json_dumps.simps)


text \<open>
  C4. Whenever trust resolution returns, the entries \<open>create_grpc_channel\<close> appends hold
  exactly one \<open>grpc.service_config\<close> entry; its value is the serialised retry document, which
  reads as below. The document has the one key \<open>methodConfig\<close>, a list of one object with
  the keys \<open>name\<close> (the list of one empty object) and \<open>retryPolicy\<close>; the policy has the keys
  \<open>maxAttempts\<close> = 5, \<open>initialBackoff\<close> = \<open>0.3s\<close>, \<open>maxBackoff\<close> = \<open>30s\<close>,
  \<open>backoffMultiplier\<close> = 3 and \<open>retryableStatusCodes\<close> = \<open>[UNAVAILABLE]\<close>, and no other.
\<close>

theorem service_config_document:
  assumes \<open>create_grpc_ssl_config e address do_verify_ssl False = Inr cfg\<close>
  shows \<open>\<exists>ch h'.
     create_grpc_channel e h address access_token do_verify_ssl logs_file_path options = (Inr ch, h')
     \<and> filter (\<lambda>kv. fst kv = ''grpc.service_config'')
          (drop (length (caller_options h options)) (transport_options ch)) =
         [(''grpc.service_config'', StrValue (json_dumps retry_service_config))]
     \<and> json_dumps retry_service_config =
         ''{"methodConfig": [{"name": [{}], "retryPolicy": {"maxAttempts": 5, "initialBackoff": "0.3s", "maxBackoff": "30s", "backoffMultiplier": 3, "retryableStatusCodes": ["UNAVAILABLE"]}}]}''
     \<and> json_keys retry_service_config = [''methodConfig'']
     \<and> (\<exists>method_config retry.
           json_field ''methodConfig'' retry_service_config = Some (JArray [method_config])
           \<and> json_keys method_config = [''name'', ''retryPolicy'']
           \<and> json_field ''name'' method_config = Some (JArray [JObject []])
           \<and> json_field ''retryPolicy'' method_config = Some retry
           \<and> json_keys retry =
               [''maxAttempts'', ''initialBackoff'', ''maxBackoff'', ''backoffMultiplier'',
                ''retryableStatusCodes'']
           \<and> json_field ''maxAttempts'' retry = Some (JInt 5)
           \<and> json_field ''initialBackoff'' retry = Some (JString ''0.3s'')
           \<and> json_field ''maxBackoff'' retry = Some (JString ''30s'')
           \<and> json_field ''backoffMultiplier'' retry = Some (JInt 3)
           \<and> json_field ''retryableStatusCodes'' retry = Some (JArray [JString ''UNAVAILABLE'']))\<close>
proof -
  have shape: \<open>json_keys retry_service_config = [''methodConfig'']
     \<and> (\<exists>method_config retry.
           json_field ''methodConfig'' retry_service_config = Some (JArray [method_config])
           \<and> json_keys method_config = [''name'', ''retryPolicy'']
           \<and> json_field ''name'' method_config = Some (JArray [JObject []])
           \<and> json_field ''retryPolicy'' method_config = Some retry
           \<and> json_keys retry =
               [''maxAttempts'', ''initialBackoff'', ''maxBackoff'', ''backoffMultiplier'',
                ''retryableStatusCodes'']
           \<and> json_field ''maxAttempts'' retry = Some (JInt 5)
           \<and> json_field ''initialBackoff'' retry = Some (JString ''0.3s'')
           \<and> json_field ''maxBackoff'' retry = Some (JString ''30s'')
           \<and> json_field ''backoffMultiplier'' retry = Some (JInt 3)
           \<and> json_field ''retryableStatusCodes'' retry = Some (JArray [JString ''UNAVAILABLE'']))\<close>
    by (simp add: retry_service_config_def)
  have opts: \<open>filter (\<lambda>kv. fst kv = ''grpc.service_config'')
        ((case hostname_override cfg of
            None \<Rightarrow> []
          | Some name \<Rightarrow>
              if name = [] then [] else [(''grpc.ssl_target_name_override'', StrValue name)]) @
         [(''grpc.enable_retries'', IntValue 1),
          (''grpc.service_config'', StrValue (json_dumps retry_service_config)),
          (''grpc.keepalive_time_ms'', IntValue 60000),
          (''grpc.keepalive_timeout_ms'', IntValue 5000),
          (''grpc.keepalive_permit_without_calls'', IntValue 1),
          (''grpc.http2.max_pings_without_data'', IntValue 0)]) =
       [(''grpc.service_config'', StrValue (json_dumps retry_service_config))]\<close>
    by (cases "hostname_override cfg") (simp_all del: json_dumps.simps)
  show ?thesis
    unfolding create_grpc_channel_returns [OF assms]
    using shape opts json_config_text
    by (simp del: json_dumps.simps)
qed

theorem service_config_document_witness:
  \<open>\<exists>ch h'.
     create_grpc_channel example_env [] ''example.com:443'' ''token123'' True ''/tmp/log'' None
       = (Inr ch, h')
     \<and> filter (\<lambda>kv. fst kv = ''grpc.service_config'') (transport_options ch) =
         [(''grpc.service_config'', StrValue
            ''{"methodConfig": [{"name": [{}], "retryPolicy": {"maxAttempts": 5, "initialBackoff": "0.3s", "maxBackoff": "30s", "backoffMultiplier": 3, "retryableStatusCodes": ["UNAVAILABLE"]}}]}'')]\<close>
proof -
  from service_config_document [OF verify_config, where e = example_env
      and address = "''example.com:443''" and h = "[]" and access_token = "''token123''"
      and logs_file_path = "''/tmp/log''" and options = None]
  obtain ch h' where
    \<open>create_grpc_channel example_env [] ''example.com:443'' ''token123'' True ''/tmp/log'' None
       = (Inr ch, h')\<close>
    \<open>filter (\<lambda>kv. fst kv = ''grpc.service_config'')
          (drop (length (caller_options [] None)) (transport_options ch)) =
         [(''grpc.service_config'', StrValue (json_dumps retry_service_config))]\<close>
    \<open>json_dumps retry_service_config =
         ''{"methodConfig": [{"name": [{}], "retryPolicy": {"maxAttempts": 5, "initialBackoff": "0.3s", "maxBackoff": "30s", "backoffMultiplier": 3, "retryableStatusCodes": ["UNAVAILABLE"]}}]}''\<close>
    by blast
  then show ?thesis
    by (simp add: caller_options_def del: json_dumps.simps)
qed

text \<open>
  C10. Whenever trust resolution returns, the entries \<open>create_grpc_channel\<close> appends hold a
  \<open>grpc.ssl_target_name_override\<close> entry exactly when the hostname override of the
  configuration is truthy. In particular, when the first name of DNS type of the pinned
  certificate is the empty string, the configuration has the hostname override \<open>""\<close>
  (present), and the options are the caller's followed by the six fixed entries alone.
\<close>

theorem empty_override_not_appended:
  "(create_grpc_ssl_config e address do_verify_ssl False = Inr cfg \<longrightarrow>
      (\<exists>ch h'.
         create_grpc_channel e h address access_token do_verify_ssl logs_file_path options
           = (Inr ch, h')
         \<and> (''grpc.ssl_target_name_override''
               \<in> fst ` set (drop (length (caller_options h options)) (transport_options ch))
             \<longleftrightarrow> truthy (hostname_override cfg))))
   \<and> (str_split_1 CHR '':'' address = [host, port] \<and> py_int port = Inr n
        \<and> get_server_certificate e host n = Inr pem
        \<and> load_pem_x509_certificate e (str_encode pem) = Inr cert
        \<and> extensions cert = Inr exts
        \<and> get_extension_for_oid_SAN exts = Inr names
        \<and> first_dns_name names = Some [] \<longrightarrow>
      create_grpc_ssl_config e address False False
        = Inr \<lparr>cadata = Some (str_encode pem), hostname_override = Some []\<rparr>
      \<and> (\<exists>ch h'.
           create_grpc_channel e h address access_token False logs_file_path options = (Inr ch, h')
           \<and> transport_options ch =
               caller_options h options @
               [(''grpc.enable_retries'', IntValue 1),
                (''grpc.service_config'', StrValue (json_dumps retry_service_config)),
                (''grpc.keepalive_time_ms'', IntValue 60000),
                (''grpc.keepalive_timeout_ms'', IntValue 5000),
                (''grpc.keepalive_permit_without_calls'', IntValue 1),
                (''grpc.http2.max_pings_without_data'', IntValue 0)]))"
proof (intro conjI impI)
  assume cfg: "create_grpc_ssl_config e address do_verify_ssl False = Inr cfg"
  show "\<exists>ch h'.
         create_grpc_channel e h address access_token do_verify_ssl logs_file_path options
           = (Inr ch, h')
         \<and> (''grpc.ssl_target_name_override''
               \<in> fst ` set (drop (length (caller_options h options)) (transport_options ch))
             \<longleftrightarrow> truthy (hostname_override cfg))"
    unfolding create_grpc_channel_returns [OF cfg]
    by (cases "hostname_override cfg") (simp_all del: json_dumps.simps)
next
  assume "str_split_1 CHR '':'' address = [host, port] \<and> py_int port = Inr n
        \<and> get_server_certificate e host n = Inr pem
        \<and> load_pem_x509_certificate e (str_encode pem) = Inr cert
        \<and> extensions cert = Inr exts
        \<and> get_extension_for_oid_SAN exts = Inr names
        \<and> first_dns_name names = Some []"
  then have cfg: "create_grpc_ssl_config e address False False
        = Inr \<lparr>cadata = Some (str_encode pem), hostname_override = Some []\<rparr>"
    by (simp add: create_grpc_ssl_config_pinned)
  then show "create_grpc_ssl_config e address False False
        = Inr \<lparr>cadata = Some (str_encode pem), hostname_override = Some []\<rparr>" .
  show "\<exists>ch h'.
           create_grpc_channel e h address access_token False logs_file_path options = (Inr ch, h')
           \<and> transport_options ch =
               caller_options h options @
               [(''grpc.enable_retries'', IntValue 1),
                (''grpc.service_config'', StrValue (json_dumps retry_service_config)),
                (''grpc.keepalive_time_ms'', IntValue 60000),
                (''grpc.keepalive_timeout_ms'', IntValue 5000),
                (''grpc.keepalive_permit_without_calls'', IntValue 1),
                (''grpc.http2.max_pings_without_data'', IntValue 0)]"
    unfolding create_grpc_channel_returns [OF cfg]
    by (simp del: json_dumps.simps)
qed

theorem empty_override_not_appended_witness:
  "create_grpc_ssl_config example_env ''empty-san.local:443'' False False
     = Inr \<lparr>cadata = Some empty_san_pem, hostname_override = Some []\<rparr>
   \<and> (\<exists>ch h'.
        create_grpc_channel example_env [] ''empty-san.local:443'' ''token123'' False
          ''/tmp/log'' None = (Inr ch, h')
        \<and> transport_options ch =
            [(''grpc.enable_retries'', IntValue 1),
             (''grpc.service_config'', StrValue (json_dumps retry_service_config)),
             (''grpc.keepalive_time_ms'', IntValue 60000),
             (''grpc.keepalive_timeout_ms'', IntValue 5000),
             (''grpc.keepalive_permit_without_calls'', IntValue 1),
             (''grpc.http2.max_pings_without_data'', IntValue 0)])"
proof -
  have san: "get_extension_for_oid_SAN
               \<lparr>subject_alternative_name = Some [DNSName []], other_extensions = []\<rparr>
             = Inr [DNSName []]"
    by (simp add: get_extension_for_oid_SAN_def)
  have dns: "first_dns_name [DNSName []] = Some []"
    by (simp add: first_dns_name_def)
  from empty_override_not_appended [THEN conjunct2, rule_format,
      where e = example_env and address = "''empty-san.local:443''" and h = "[]"
        and access_token = "''token123''" and logs_file_path = "''/tmp/log''" and options = None,
      OF conjI [OF split_empty_san conjI [OF py_int_443 conjI [OF fetch_empty_san
           conjI [OF load_empty_san conjI [OF extensions_empty_san conjI [OF san dns]]]]]]]
  show ?thesis
    by (simp add: caller_options_def encode_example_pems del: json_dumps.simps)
qed

subsection \<open>The caller's list\<close>

text \<open>
  C7. The list the caller passes is not mutated: after the call, whether it returned or
  raised, the caller's list object holds what it held before, and so does every list
  object that existed before the call.
\<close>

theorem caller_list_unchanged:
  assumes "options = Some r" and "r < length h"
  shows "snd (create_grpc_channel e h address access_token do_verify_ssl logs_file_path options) ! r
           = h ! r
       \<and> take (length h)
            (snd (create_grpc_channel e h address access_token do_verify_ssl logs_file_path options))
           = h"
proof (cases "create_grpc_ssl_config e address do_verify_ssl False")
  case (Inl err)
  with assms show ?thesis
    by (simp add: create_grpc_channel_raises nth_append)
next
  case (Inr cfg)
  with assms show ?thesis
    by (simp add: create_grpc_channel_returns nth_append del: json_dumps.simps)
qed

theorem caller_list_unchanged_witness:
  "snd (create_grpc_channel example_env
          [[(''grpc.max_receive_message_length'', IntValue 1024)]]
          ''self-signed.local:443'' ''token123'' False ''/tmp/log'' (Some 0)) ! 0
     = [(''grpc.max_receive_message_length'', IntValue 1024)]"
  using caller_list_unchanged [of "Some 0" 0 "[[(''grpc.max_receive_message_length'', IntValue 1024)]]"
      example_env "''self-signed.local:443''" "''token123''" False "''/tmp/log''"]
  by simp

subsection \<open>The interceptors\<close>

text \<open>
  C5. Whenever trust resolution returns, the channel \<open>create_grpc_channel\<close> returns is the
  secure channel wrapped by the logging interceptor, that by the error interceptor, that
  by the tracking interceptor and that by the request-id interceptor: the request-id
  interceptor is the outermost and is given control first, the logging interceptor the
  innermost, and the order of control is request id, tracking, errors, logging.
\<close>

theorem interceptor_order:
  assumes "create_grpc_ssl_config e address do_verify_ssl False = Inr cfg"
  shows "\<exists>transport h'.
     create_grpc_channel e h address access_token do_verify_ssl logs_file_path options =
       (Inr (InterceptedChannel
              (InterceptedChannel
                (InterceptedChannel
                  (InterceptedChannel transport (LogRpcCallsInterceptor logs_file_path))
                  GRPCErrorClientInterceptor)
                TrackingClientInterceptor)
              RequestIdInterceptor), h')
     \<and> interception_order transport = []
     \<and> interception_order
          (InterceptedChannel
              (InterceptedChannel
                (InterceptedChannel
                  (InterceptedChannel transport (LogRpcCallsInterceptor logs_file_path))
                  GRPCErrorClientInterceptor)
                TrackingClientInterceptor)
              RequestIdInterceptor) =
         [RequestIdInterceptor, TrackingClientInterceptor, GRPCErrorClientInterceptor,
          LogRpcCallsInterceptor logs_file_path]"
  unfolding create_grpc_channel_returns [OF assms]
  by (simp del: json_dumps.simps)

theorem interceptor_order_witness:
  "(case fst (create_grpc_channel example_env [] ''example.com:443'' ''token123'' True
               ''/tmp/log'' None) of
      Inl err \<Rightarrow> False
    | Inr ch \<Rightarrow>
        interception_order ch =
          [RequestIdInterceptor, TrackingClientInterceptor, GRPCErrorClientInterceptor,
           LogRpcCallsInterceptor ''/tmp/log''])"
proof -
  from interceptor_order [OF verify_config, where e = example_env
      and address = "''example.com:443''" and h = "[]" and access_token = "''token123''"
      and logs_file_path = "''/tmp/log''" and options = None]
  obtain transport h' where
    "create_grpc_channel example_env [] ''example.com:443'' ''token123'' True ''/tmp/log'' None =
       (Inr (InterceptedChannel
              (InterceptedChannel
                (InterceptedChannel
                  (InterceptedChannel transport (LogRpcCallsInterceptor ''/tmp/log''))
                  GRPCErrorClientInterceptor)
                TrackingClientInterceptor)
              RequestIdInterceptor), h')"
    "interception_order transport = []"
    by blast
  then show ?thesis by simp
qed

subsection \<open>The timing of the retries\<close>

text \<open>
  C6, evaluated on the constants of the module. The policy gRPC reads from the document
  has five attempts, hence four retries. The nominal backoffs \<open>0.3 * 3 ^ k\<close> for
  \<open>k = 0..4\<close>, capped at 30 s, are 0.3, 0.9, 2.7, 8.1 and 24.3 s, none above 30 s. The
  fifth attempt, the last, starts after the first four of them: nominally 12 s after the
  first attempt, which is less than the 25 s the module's comment promises.
\<close>

theorem retry_backoff_timing:
  "(case retry_policy_of retry_service_config of
      None \<Rightarrow> False
    | Some p \<Rightarrow>
        maxAttempts p = 5
        \<and> map (nominal_backoff p) [0..<5] = [3 / 10, 9 / 10, 27 / 10, 81 / 10, 243 / 10]
        \<and> nominal_backoff p 4 \<le> 30
        \<and> nominal_start p 5 = 12
        \<and> nominal_start p 5 < 25)"
  by (simp add: retry_policy_of_config nominal_backoff_def nominal_start_def upt_small)


end
